theory Spec2Isabelle
  imports Complex_Main
begin

section \<open>Entities (crm/models.py)\<close>

text \<open>
  Dates are day ordinals and a timestamp is a day together with the time elapsed in
  it, so that \<open>.date()\<close> is the first component. A UUID is written by its canonical
  text, which is what \<open>str\<close> prints. A monetary amount is a number that the
  operations below store, copy and compare, and never compute with: the arithmetic
  of binary floating point is not modelled, and neither is the rounding of the
  \<open>Numeric(12, 2)\<close> columns.
\<close>

type_synonym date = int
type_synonym datetime = "int \<times> nat"
type_synonym uuid = string

datatype OpportunityStage = prospect | proposal | negotiation | won | lost

datatype InvoiceStatus = draft | issued | paid | overdue

record Opportunity =
  id' :: uuid
  client_id :: uuid
  name :: string
  stage :: OpportunityStage
  probability :: real
  expected_close_date :: "date option"
  actual_close_date :: "date option"
  amount :: real
  owner :: "string option"
  infor_sales_order_id :: "string option"
  notes' :: "string option"
  created_at :: datetime
  updated_at :: datetime

text \<open>
  The surrogate keys of invoices, audit rows and log rows, and the columns
  \<open>SalesDateUpdate.updated_at\<close> and \<open>SyncLog.executed_at\<close>, are filled by column
  defaults when a row is inserted and are read by no service; a row of these tables
  is an element of a list and those columns are left out.
\<close>

record Invoice =
  opportunity_id :: uuid
  external_id :: "string option"
  amount :: real
  issue_date :: date
  due_date :: "date option"
  status :: InvoiceStatus
  currency :: string
  last_sync_at :: "datetime option"

record SyncLog =
  sync_type :: string
  success :: bool
  details :: "string option"

record SalesDateUpdate =
  opportunity_id :: uuid
  previous_date :: "date option"
  new_date :: date
  updated_by :: string
  synced_with_infor :: bool
  sync_reference :: "string option"

section \<open>The external system (crm/integration/skyline_client.py)\<close>

record InvoicePayload =
  external_id :: string
  opportunity_external_id :: string
  amount :: real
  issue_date :: date
  due_date :: "date option"
  status :: string
  currency :: string

record SaleDateUpdateResponse =
  success :: bool
  reference :: "string option"
  message :: "string option"

datatype exn =
  ValueError string
  | RuntimeError string
  | IntegrityError string
  | RequestException string

fun str_exn :: "exn \<Rightarrow> string" where
  "str_exn (ValueError m) = m"
| "str_exn (RuntimeError m) = m"
| "str_exn (IntegrityError m) = m"
| "str_exn (RequestException m) = m"

text \<open>
  The client is a collaborator handed to the service. \<open>fetch_invoices\<close> returns an
  iterable: the payloads it yields and, if the iteration ends by an exception, that
  exception (a call that raises at once yields no payload). \<open>update_sale_date\<close>
  returns an outcome or raises.
\<close>

record InforSkylineClient =
  fetch_invoices :: "date \<Rightarrow> InvoicePayload list \<times> exn option"
  update_sale_date :: "string \<Rightarrow> date \<Rightarrow> exn + SaleDateUpdateResponse"

datatype remote_call = UpdateSaleDate string date

section \<open>Strings\<close>

definition lower_char :: "char \<Rightarrow> char" where
  "lower_char c =
     (case map_of (zip ''ABCDEFGHIJKLMNOPQRSTUVWXYZ'' ''abcdefghijklmnopqrstuvwxyz'') c of
        Some l \<Rightarrow> l
      | None \<Rightarrow> c)"

text \<open>
  \<open>str.lower\<close> on the ASCII letters. A character outside ASCII is a sequence of
  bytes above 127 here and stays as it is; Python maps none of them to a string of
  the letters that spell a canonical status.
\<close>

definition lower :: "string \<Rightarrow> string" where
  "lower s = map lower_char s"

fun join :: "string \<Rightarrow> string list \<Rightarrow> string" where
  "join sep [] = []"
| "join sep [x] = x"
| "join sep (x # y # ys) = x @ sep @ join sep (y # ys)"

fun str_nat :: "nat \<Rightarrow> string" where
  "str_nat n =
     (if n < 10 then [''0123456789'' ! n]
      else str_nat (n div 10) @ [''0123456789'' ! (n mod 10)])"

definition truthy :: "string option \<Rightarrow> bool" where
  "truthy v = (case v of None \<Rightarrow> False | Some s \<Rightarrow> s \<noteq> [])"

section \<open>Invoice status coercion (crm/models.py, crm/services.py)\<close>

fun InvoiceStatus_value :: "InvoiceStatus \<Rightarrow> string" where
  "InvoiceStatus_value draft = ''draft''"
| "InvoiceStatus_value issued = ''issued''"
| "InvoiceStatus_value paid = ''paid''"
| "InvoiceStatus_value overdue = ''overdue''"

text \<open>The enum's constructor looks a member up by value and raises \<open>ValueError\<close>.\<close>

definition InvoiceStatus_of :: "string \<Rightarrow> exn + InvoiceStatus" where
  "InvoiceStatus_of v =
     (if v = ''draft'' then Inr draft
      else if v = ''issued'' then Inr issued
      else if v = ''paid'' then Inr paid
      else if v = ''overdue'' then Inr overdue
      else Inl (ValueError (CHR 0x27 # v @ CHR 0x27 # '' is not a valid InvoiceStatus'')))"

text \<open>The nested \<open>try\<close> of \<open>synchronise_invoices\<close>, lines 125 to 131.\<close>

definition coerce_status :: "string \<Rightarrow> InvoiceStatus" where
  "coerce_status v =
     (case InvoiceStatus_of v of
        Inr st \<Rightarrow> st
      | Inl _ \<Rightarrow>
          (case InvoiceStatus_of (lower v) of
             Inr st \<Rightarrow> st
           | Inl _ \<Rightarrow> issued))"

section \<open>Persistence (crm/database.py)\<close>

text \<open>
  A table is the list of its rows, in the order in which a query without ordering
  returns them.
\<close>

record database =
  opportunities :: "Opportunity list"
  invoices :: "Invoice list"
  sales_date_updates :: "SalesDateUpdate list"
  sync_logs :: "SyncLog list"

text \<open>
  A session made by \<open>SessionLocal\<close>, which is configured with \<open>autoflush=False\<close>:
  \<open>rows\<close> is what the queries of the transaction read, with the attribute writes
  made on loaded objects; an object handed to \<open>session.add\<close> is pending in a
  \<open>new_\<close> list and is inserted by the flush of \<open>commit\<close> only, so no query of the
  same session returns it. A loaded object is referred to by the position of its row.
\<close>

record session =
  rows :: database
  new_invoices :: "Invoice list"
  new_sales_date_updates :: "SalesDateUpdate list"
  new_sync_logs :: "SyncLog list"

definition SessionLocal :: "database \<Rightarrow> session" where
  "SessionLocal db =
     \<lparr>rows = db, new_invoices = [], new_sales_date_updates = [], new_sync_logs = []\<rparr>"

text \<open>\<open>Invoice.external_id\<close> is declared \<open>unique=True\<close>; NULLs do not collide.\<close>

definition unique_external_ids :: "Invoice list \<Rightarrow> bool" where
  "unique_external_ids invs = distinct (List.map_filter Invoice.external_id invs)"

definition flush :: "session \<Rightarrow> exn + session" where
  "flush s =
     (let invs = invoices (rows s) @ new_invoices s
      in if unique_external_ids invs
         then Inr \<lparr>rows = (rows s)
                      \<lparr>invoices := invs,
                       sales_date_updates :=
                         sales_date_updates (rows s) @ new_sales_date_updates s,
                       sync_logs := sync_logs (rows s) @ new_sync_logs s\<rparr>,
                   new_invoices = [], new_sales_date_updates = [], new_sync_logs = []\<rparr>
         else Inl (IntegrityError ''UNIQUE constraint failed: invoices.external_id''))"

definition commit :: "session \<Rightarrow> exn + database" where
  "commit s = (case flush s of Inl e \<Rightarrow> Inl e | Inr s' \<Rightarrow> Inr (rows s'))"

text \<open>
  \<open>session_scope\<close>: the body runs in a fresh session; the scope commits when the
  body returns and rolls back when the body or the commit raises.
\<close>

definition session_scope ::
  "database \<Rightarrow> (session \<Rightarrow> (exn + 'a) \<times> session) \<Rightarrow> (exn + 'a) \<times> database" where
  "session_scope db body =
     (case body (SessionLocal db) of
        (Inl e, s) \<Rightarrow> (Inl e, db)
      | (Inr r, s) \<Rightarrow>
          (case commit s of
             Inl e \<Rightarrow> (Inl e, db)
           | Inr db' \<Rightarrow> (Inr r, db')))"

section \<open>Repositories (crm/repositories.py)\<close>

fun find_index :: "('a \<Rightarrow> bool) \<Rightarrow> 'a list \<Rightarrow> nat option" where
  "find_index P [] = None"
| "find_index P (x # xs) = (if P x then Some 0 else map_option Suc (find_index P xs))"

definition OpportunityRepository_get :: "session \<Rightarrow> uuid \<Rightarrow> nat option" where
  "OpportunityRepository_get s key =
     find_index (\<lambda>opp. id' opp = key) (opportunities (rows s))"

definition get_by_infor_id :: "session \<Rightarrow> string \<Rightarrow> nat option" where
  "get_by_infor_id s ext =
     find_index (\<lambda>opp. infor_sales_order_id opp = Some ext) (opportunities (rows s))"

definition select_invoice :: "session \<Rightarrow> string \<Rightarrow> nat option" where
  "select_invoice s ext =
     find_index (\<lambda>inv. Invoice.external_id inv = Some ext) (invoices (rows s))"

text \<open>
  \<open>InvoiceRepository.upsert_from_payload\<close>; \<open>now\<close> is what \<open>datetime.utcnow()\<close>
  returns in it. The service does not use the invoice that is returned.
\<close>

definition upsert_from_payload ::
  "datetime \<Rightarrow> Opportunity \<Rightarrow> string \<Rightarrow> real \<Rightarrow> date \<Rightarrow> date option \<Rightarrow> InvoiceStatus \<Rightarrow>
   string \<Rightarrow> session \<Rightarrow> session" where
  "upsert_from_payload now opportunity ext amt issued_on due st cur s =
     (case select_invoice s ext of
        None \<Rightarrow>
          s\<lparr>new_invoices := new_invoices s @
              [\<lparr>Invoice.opportunity_id = id' opportunity,
                Invoice.external_id = Some ext,
                Invoice.amount = amt,
                Invoice.issue_date = issued_on,
                Invoice.due_date = due,
                Invoice.status = st,
                Invoice.currency = cur,
                last_sync_at = Some now\<rparr>]\<rparr>
      | Some k \<Rightarrow>
          s\<lparr>rows := (rows s)
              \<lparr>invoices := (invoices (rows s))
                 [k := (invoices (rows s) ! k)
                    \<lparr>Invoice.amount := amt,
                     Invoice.issue_date := issued_on,
                     Invoice.due_date := due,
                     Invoice.status := st,
                     Invoice.currency := cur,
                     last_sync_at := Some now\<rparr>]\<rparr>\<rparr>)"

definition SalesDateUpdateRepository_record ::
  "Opportunity \<Rightarrow> date option \<Rightarrow> date \<Rightarrow> string \<Rightarrow> bool \<Rightarrow> string option \<Rightarrow> session \<Rightarrow> session" where
  "SalesDateUpdateRepository_record opportunity previous new actor synced ref s =
     s\<lparr>new_sales_date_updates := new_sales_date_updates s @
         [\<lparr>SalesDateUpdate.opportunity_id = id' opportunity,
           previous_date = previous,
           new_date = new,
           updated_by = actor,
           synced_with_infor = synced,
           sync_reference = ref\<rparr>]\<rparr>"

definition SyncLogRepository_create :: "string \<Rightarrow> bool \<Rightarrow> string option \<Rightarrow> session \<Rightarrow> session" where
  "SyncLogRepository_create kind ok text s =
     s\<lparr>new_sync_logs := new_sync_logs s @
         [\<lparr>sync_type = kind, SyncLog.success = ok, details = text\<rparr>]\<rparr>"

section \<open>Services (crm/services.py)\<close>

subsection \<open>Sales date updates\<close>

datatype opportunity_id_arg = Str string | Uuid uuid

text \<open>
  \<open>update_sales_date\<close>. \<open>parse_uuid\<close> stands for \<open>uuid.UUID\<close> on a string (\<open>None\<close>
  where it raises \<open>ValueError\<close>) and \<open>now\<close> for the clock. The result is what is
  returned or raised, the session as the call leaves it, and the requests sent to
  the external system.
\<close>

definition update_sales_date ::
  "(string \<Rightarrow> uuid option) \<Rightarrow> InforSkylineClient \<Rightarrow> datetime \<Rightarrow> opportunity_id_arg \<Rightarrow> date \<Rightarrow>
   string \<Rightarrow> session \<Rightarrow> (exn + Opportunity) \<times> session \<times> remote_call list" where
  "update_sales_date parse_uuid skyline_client now key new actor s =
     (case (case key of
              Uuid u \<Rightarrow> Inr u
            | Str text \<Rightarrow>
                (case parse_uuid text of
                   None \<Rightarrow> Inl (ValueError ''Invalid opportunity id'')
                 | Some u \<Rightarrow> Inr u)) of
        Inl e \<Rightarrow> (Inl e, s, [])
      | Inr u \<Rightarrow>
          (case OpportunityRepository_get s u of
             None \<Rightarrow> (Inl (ValueError (''Opportunity '' @ u @ '' not found'')), s, [])
           | Some j \<Rightarrow>
               (let previous = expected_close_date (opportunities (rows s) ! j);
                    opportunity = (opportunities (rows s) ! j)
                      \<lparr>expected_close_date := Some new, updated_at := now\<rparr>;
                    s1 = s\<lparr>rows := (rows s)
                           \<lparr>opportunities := (opportunities (rows s))[j := opportunity]\<rparr>\<rparr>
                in if truthy (infor_sales_order_id opportunity)
                   then
                     (let order_id = the (infor_sales_order_id opportunity);
                          calls = [UpdateSaleDate order_id new]
                      in case update_sale_date skyline_client order_id new of
                           Inl e \<Rightarrow> (Inl e, s1, calls)
                         | Inr response \<Rightarrow>
                             if \<not> SaleDateUpdateResponse.success response
                             then (Inl (RuntimeError
                                     (if truthy (message response) then the (message response)
                                      else ''Failed to update Infor Skyline'')),
                                   s1, calls)
                             else (Inr opportunity,
                                   SalesDateUpdateRepository_record opportunity previous new
                                     actor (SaleDateUpdateResponse.success response)
                                     (reference response) s1,
                                   calls))
                   else (Inr opportunity,
                         SalesDateUpdateRepository_record opportunity previous new actor
                           False None s1,
                         []))))"

subsection \<open>Invoice synchronisation\<close>

definition unknown_opportunity :: "InvoicePayload \<Rightarrow> string" where
  "unknown_opportunity payload =
     ''Unknown opportunity for invoice '' @ InvoicePayload.external_id payload"

text \<open>
  The body of the \<open>for\<close> loop of \<open>synchronise_invoices\<close> over the payloads that the
  iterable yields. \<open>utcnow k\<close> is the reading of the clock after \<open>k\<close> earlier readings
  of the call.
\<close>

fun sync_loop ::
  "(nat \<Rightarrow> datetime) \<Rightarrow> InvoicePayload list \<Rightarrow> session \<Rightarrow> nat \<Rightarrow> string list \<Rightarrow> nat \<Rightarrow>
   session \<times> nat \<times> string list \<times> nat" where
  "sync_loop utcnow [] s processed errors k = (s, processed, errors, k)"
| "sync_loop utcnow (payload # rest) s processed errors k =
     (case get_by_infor_id s (opportunity_external_id payload) of
        None \<Rightarrow>
          sync_loop utcnow rest s processed (errors @ [unknown_opportunity payload]) k
      | Some j \<Rightarrow>
          sync_loop utcnow rest
            (upsert_from_payload (utcnow k) (opportunities (rows s) ! j)
               (InvoicePayload.external_id payload) (InvoicePayload.amount payload)
               (InvoicePayload.issue_date payload) (InvoicePayload.due_date payload)
               (coerce_status (InvoicePayload.status payload))
               (InvoicePayload.currency payload) s)
            (processed + 1) errors (Suc k))"

record sync_result =
  processed :: nat
  warnings :: "string list"

definition synchronise_invoices ::
  "InforSkylineClient \<Rightarrow> (nat \<Rightarrow> datetime) \<Rightarrow> date option \<Rightarrow> session \<Rightarrow>
   (exn + sync_result) \<times> session" where
  "synchronise_invoices skyline_client utcnow since s =
     (let (since', k0) =
            (case since of Some d \<Rightarrow> (d, 0) | None \<Rightarrow> (fst (utcnow 0) - 1, Suc 0));
          (payloads, failure) = fetch_invoices skyline_client since';
          (s1, n, errors, k) = sync_loop utcnow payloads s 0 [] k0
      in case failure of
           None \<Rightarrow>
             (let details0 = ''Processed '' @ str_nat n @ '' invoices'';
                  details1 = (if errors \<noteq> []
                              then details0 @ ''; warnings: '' @ join '' | '' errors
                              else details0)
              in (Inr \<lparr>processed = n, warnings = errors\<rparr>,
                  SyncLogRepository_create ''invoice'' (errors = []) (Some details1) s1))
         | Some exc \<Rightarrow>
             (Inl exc,
              SyncLogRepository_create ''invoice'' False
                (Some (join ''; '' (errors @ [str_exn exc]))) s1))"

section \<open>The scheduled job (crm/sync.py)\<close>

text \<open>
  \<open>_run_invoice_sync\<close>: one synchronisation with no \<open>since\<close>, in a transactional
  scope of its own; its printed summary is left out.
\<close>

definition run_invoice_sync ::
  "InforSkylineClient \<Rightarrow> (nat \<Rightarrow> datetime) \<Rightarrow> database \<Rightarrow> (exn + sync_result) \<times> database" where
  "run_invoice_sync skyline_client utcnow db =
     session_scope db (synchronise_invoices skyline_client utcnow None)"

section \<open>Notions used to state the properties\<close>

text \<open>The identifier handed to \<open>update_sales_date\<close> denotes the key \<open>u\<close>.\<close>

definition resolves :: "(string \<Rightarrow> uuid option) \<Rightarrow> opportunity_id_arg \<Rightarrow> uuid \<Rightarrow> bool" where
  "resolves parse_uuid key u =
     (case key of Uuid v \<Rightarrow> v = u | Str text \<Rightarrow> parse_uuid text = Some u)"

text \<open>
  A payload whose external order id is that of a stored opportunity, the number of
  such payloads in a batch, and the warnings of the others.
\<close>

definition known_opportunity :: "Opportunity list \<Rightarrow> InvoicePayload \<Rightarrow> bool" where
  "known_opportunity opps payload =
     (\<exists>opp\<in>set opps. infor_sales_order_id opp = Some (opportunity_external_id payload))"

definition processed_count :: "Opportunity list \<Rightarrow> InvoicePayload list \<Rightarrow> nat" where
  "processed_count opps payloads = length (filter (known_opportunity opps) payloads)"

definition batch_warnings :: "Opportunity list \<Rightarrow> InvoicePayload list \<Rightarrow> string list" where
  "batch_warnings opps payloads =
     map unknown_opportunity
       (filter (\<lambda>payload. \<not> known_opportunity opps payload) payloads)"

text \<open>The watermark that \<open>synchronise_invoices\<close> hands to the client.\<close>

definition since_of :: "(nat \<Rightarrow> datetime) \<Rightarrow> date option \<Rightarrow> date" where
  "since_of utcnow since = (case since of Some d \<Rightarrow> d | None \<Rightarrow> fst (utcnow 0) - 1)"

definition reads_before_loop :: "date option \<Rightarrow> nat" where
  "reads_before_loop since = (case since of Some d \<Rightarrow> 0 | None \<Rightarrow> Suc 0)"


definition stored_with :: "string \<Rightarrow> Invoice list \<Rightarrow> Invoice list" where
  "stored_with ext invs = filter (\<lambda>inv. Invoice.external_id inv = Some ext) invs"



section \<open>Example data\<close>

definition example_opportunity ::
  "uuid \<Rightarrow> OpportunityStage \<Rightarrow> real \<Rightarrow> date option \<Rightarrow> string option \<Rightarrow> Opportunity" where
  "example_opportunity key stg amt closing order_id =
     \<lparr>id' = key, client_id = ''c-1'', name = ''Plant retrofit'', stage = stg,
      probability = 50, expected_close_date = closing, actual_close_date = None,
      Opportunity.amount = amt, owner = Some ''ana'', infor_sales_order_id = order_id,
      notes' = None, created_at = (738000, 0), updated_at = (738000, 0)\<rparr>"

definition example_invoice :: "uuid \<Rightarrow> string \<Rightarrow> real \<Rightarrow> InvoiceStatus \<Rightarrow> Invoice" where
  "example_invoice owner_id ext amt st =
     \<lparr>Invoice.opportunity_id = owner_id, Invoice.external_id = Some ext,
      Invoice.amount = amt, Invoice.issue_date = 738500, Invoice.due_date = None,
      Invoice.status = st, Invoice.currency = ''USD'', last_sync_at = None\<rparr>"

definition example_payload :: "string \<Rightarrow> string \<Rightarrow> real \<Rightarrow> string \<Rightarrow> InvoicePayload" where
  "example_payload ext order_id amt st =
     \<lparr>InvoicePayload.external_id = ext, opportunity_external_id = order_id,
      InvoicePayload.amount = amt, InvoicePayload.issue_date = 739000,
      InvoicePayload.due_date = Some 739030, InvoicePayload.status = st,
      InvoicePayload.currency = ''EUR''\<rparr>"

definition example_database :: "Opportunity list \<Rightarrow> Invoice list \<Rightarrow> database" where
  "example_database opps invs =
     \<lparr>opportunities = opps, invoices = invs, sales_date_updates = [], sync_logs = []\<rparr>"

text \<open>A stand-in client with canned answers.\<close>

definition example_client ::
  "InvoicePayload list \<Rightarrow> exn option \<Rightarrow> exn + SaleDateUpdateResponse \<Rightarrow> InforSkylineClient" where
  "example_client payloads failure outcome =
     \<lparr>fetch_invoices = (\<lambda>since. (payloads, failure)),
      update_sale_date = (\<lambda>order_id new. outcome)\<rparr>"

definition example_clock :: "nat \<Rightarrow> datetime" where
  "example_clock k = (739100, k)"

lemmas example_defs = example_opportunity_def example_invoice_def example_payload_def
  example_database_def example_client_def example_clock_def SessionLocal_def

section \<open>Status resolution\<close>

lemma InvoiceStatus_of_Inr: "InvoiceStatus_of v = Inr st \<longleftrightarrow> InvoiceStatus_value st = v"
  by (cases st) (auto simp: InvoiceStatus_of_def)

lemma InvoiceStatus_of_Inl:
  "(\<exists>e. InvoiceStatus_of v = Inl e) \<longleftrightarrow> (\<forall>st. InvoiceStatus_value st \<noteq> v)"
proof
  assume "\<exists>e. InvoiceStatus_of v = Inl e"
  then obtain e where e: "InvoiceStatus_of v = Inl e" by blast
  show "\<forall>st. InvoiceStatus_value st \<noteq> v"
  proof
    fix st
    from e have "InvoiceStatus_of v \<noteq> Inr st" by simp
    then show "InvoiceStatus_value st \<noteq> v" by (simp add: InvoiceStatus_of_Inr)
  qed
next
  assume none: "\<forall>st. InvoiceStatus_value st \<noteq> v"
  show "\<exists>e. InvoiceStatus_of v = Inl e"
  proof (cases "InvoiceStatus_of v")
    case (Inl e)
    then show ?thesis by blast
  next
    case (Inr st)
    with none show ?thesis by (simp add: InvoiceStatus_of_Inr)
  qed
qed

text \<open>
  C6. The status text of a payload is resolved in this order: a text that is the value
  of a canonical status (draft, issued, paid, overdue) gives that status; otherwise a
  text whose lowercase form is such a value gives that status; otherwise the status is
  issued. \<open>PAID\<close> resolves to paid and \<open>bogus\<close> to issued.
\<close>

theorem coerce_status_resolution_order:
  "(InvoiceStatus_value st = v \<longrightarrow> coerce_status v = st) \<and>
   ((\<forall>x. InvoiceStatus_value x \<noteq> v) \<and> InvoiceStatus_value st = lower v
      \<longrightarrow> coerce_status v = st) \<and>
   ((\<forall>x. InvoiceStatus_value x \<noteq> v) \<and> (\<forall>x. InvoiceStatus_value x \<noteq> lower v)
      \<longrightarrow> coerce_status v = issued) \<and>
   coerce_status ''PAID'' = paid \<and> coerce_status ''bogus'' = issued"
proof (intro conjI impI)
  assume "InvoiceStatus_value st = v"
  then have "InvoiceStatus_of v = Inr st" by (simp add: InvoiceStatus_of_Inr)
  then show "coerce_status v = st" by (simp add: coerce_status_def)
next
  assume a: "(\<forall>x. InvoiceStatus_value x \<noteq> v) \<and> InvoiceStatus_value st = lower v"
  then obtain e where "InvoiceStatus_of v = Inl e"
    using InvoiceStatus_of_Inl [of v] by blast
  moreover from a have "InvoiceStatus_of (lower v) = Inr st"
    by (simp add: InvoiceStatus_of_Inr)
  ultimately show "coerce_status v = st" by (simp add: coerce_status_def)
next
  assume a: "(\<forall>x. InvoiceStatus_value x \<noteq> v) \<and> (\<forall>x. InvoiceStatus_value x \<noteq> lower v)"
  then obtain e where "InvoiceStatus_of v = Inl e"
    using InvoiceStatus_of_Inl [of v] by blast
  moreover from a obtain e' where "InvoiceStatus_of (lower v) = Inl e'"
    using InvoiceStatus_of_Inl [of "lower v"] by blast
  ultimately show "coerce_status v = issued" by (simp add: coerce_status_def)
next
  show "coerce_status ''PAID'' = paid"
    by (simp add: coerce_status_def InvoiceStatus_of_def lower_def lower_char_def)
next
  show "coerce_status ''bogus'' = issued"
    by (simp add: coerce_status_def InvoiceStatus_of_def lower_def lower_char_def)
qed

theorem coerce_status_resolution_order_witness:
  "InvoiceStatus_value overdue = ''overdue'' \<and> coerce_status ''overdue'' = overdue \<and>
   (\<forall>x. InvoiceStatus_value x \<noteq> ''Draft'') \<and> InvoiceStatus_value draft = lower ''Draft'' \<and>
   coerce_status ''Draft'' = draft \<and>
   (\<forall>x. InvoiceStatus_value x \<noteq> ''void'') \<and> (\<forall>x. InvoiceStatus_value x \<noteq> lower ''void'') \<and>
   coerce_status ''void'' = issued"
proof -
  have exact: "InvoiceStatus_value overdue = ''overdue''" by simp
  have no1: "\<forall>x. InvoiceStatus_value x \<noteq> ''Draft''"
  proof
    fix x show "InvoiceStatus_value x \<noteq> ''Draft''" by (cases x) simp_all
  qed
  have low: "InvoiceStatus_value draft = lower ''Draft''"
    by (simp add: lower_def lower_char_def)
  have no2: "\<forall>x. InvoiceStatus_value x \<noteq> ''void''"
  proof
    fix x show "InvoiceStatus_value x \<noteq> ''void''" by (cases x) simp_all
  qed
  have no3: "\<forall>x. InvoiceStatus_value x \<noteq> lower ''void''"
  proof
    fix x show "InvoiceStatus_value x \<noteq> lower ''void''"
      by (cases x) (simp_all add: lower_def lower_char_def)
  qed
  from exact coerce_status_resolution_order [of overdue "''overdue''"]
  have r1: "coerce_status ''overdue'' = overdue" by blast
  from no1 low coerce_status_resolution_order [of draft "''Draft''"]
  have r2: "coerce_status ''Draft'' = draft" by blast
  from no2 no3 coerce_status_resolution_order [of st "''void''" for st]
  have r3: "coerce_status ''void'' = issued" by blast
  from exact no1 low no2 no3 r1 r2 r3 show ?thesis by blast
qed

section \<open>Row lookup\<close>

lemma find_index_Some:
  "find_index P xs = Some k \<Longrightarrow> k < length xs \<and> P (xs ! k) \<and> (\<forall>i<k. \<not> P (xs ! i))"
proof (induction xs arbitrary: k)
  case Nil
  then show ?case by simp
next
  case (Cons x xs)
  show ?case
  proof (cases "P x")
    case True
    with Cons.prems show ?thesis by simp
  next
    case False
    with Cons.prems obtain k' where k': "find_index P xs = Some k'" "k = Suc k'"
      by auto
    from Cons.IH [OF k'(1)] False k'(2) show ?thesis
      by (auto simp: less_Suc_eq_0_disj)
  qed
qed

lemma find_index_None: "find_index P xs = None \<longleftrightarrow> (\<forall>x\<in>set xs. \<not> P x)"
  by (induction xs) auto

lemma find_index_exists: "\<exists>x\<in>set xs. P x \<Longrightarrow> \<exists>k. find_index P xs = Some k"
  using find_index_None [of P xs] by (cases "find_index P xs") auto

section \<open>Upsert of a stored invoice\<close>

text \<open>
  C8. When the external invoice id of an upsert already names a stored invoice, the
  upsert changes one row of the invoice table and nothing else in the session: in
  that row the amount, issue date, due date, status, currency and last-sync timestamp
  are overwritten, and its owning opportunity and external id stay as they were,
  whatever opportunity the payload resolved to. No invoice is created.
\<close>

theorem upsert_existing_keeps_owner:
  assumes stored: "\<exists>inv\<in>set (invoices (rows s)). Invoice.external_id inv = Some ext"
  shows "\<exists>k<length (invoices (rows s)).
           Invoice.external_id (invoices (rows s) ! k) = Some ext \<and>
           upsert_from_payload now opportunity ext amt issued_on due st cur s =
             s\<lparr>rows := (rows s)
                 \<lparr>invoices := (invoices (rows s))
                    [k := (invoices (rows s) ! k)
                       \<lparr>Invoice.amount := amt, Invoice.issue_date := issued_on,
                        Invoice.due_date := due, Invoice.status := st,
                        Invoice.currency := cur, last_sync_at := Some now\<rparr>]\<rparr>\<rparr> \<and>
           Invoice.opportunity_id
             (invoices (rows (upsert_from_payload now opportunity ext amt issued_on due st cur s)) ! k) =
             Invoice.opportunity_id (invoices (rows s) ! k) \<and>
           Invoice.external_id
             (invoices (rows (upsert_from_payload now opportunity ext amt issued_on due st cur s)) ! k) =
             Some ext \<and>
           length (invoices (rows (upsert_from_payload now opportunity ext amt issued_on due st cur s))) =
             length (invoices (rows s)) \<and>
           new_invoices (upsert_from_payload now opportunity ext amt issued_on due st cur s) =
             new_invoices s"
proof -
  from stored obtain k where k: "select_invoice s ext = Some k"
    unfolding select_invoice_def
    using find_index_exists [of "invoices (rows s)" "\<lambda>inv. Invoice.external_id inv = Some ext"]
    by blast
  then have bound: "k < length (invoices (rows s))"
    and hit: "Invoice.external_id (invoices (rows s) ! k) = Some ext"
    unfolding select_invoice_def by (auto dest: find_index_Some)
  from k bound hit show ?thesis
    by (intro exI [of _ k]) (simp add: upsert_from_payload_def)
qed

theorem upsert_existing_keeps_owner_witness:
  "map Invoice.opportunity_id (invoices (rows
      (upsert_from_payload (739100, 0)
         (example_opportunity ''o-2'' prospect 100 None (Some ''SO-2''))
         ''INV-1'' 75 739000 None paid ''EUR''
         (SessionLocal (example_database
            [example_opportunity ''o-1'' prospect 100 None (Some ''SO-1''),
             example_opportunity ''o-2'' prospect 100 None (Some ''SO-2'')]
            [example_invoice ''o-1'' ''INV-1'' 30 issued]))))) = [''o-1''] \<and>
   map Invoice.amount (invoices (rows
      (upsert_from_payload (739100, 0)
         (example_opportunity ''o-2'' prospect 100 None (Some ''SO-2''))
         ''INV-1'' 75 739000 None paid ''EUR''
         (SessionLocal (example_database
            [example_opportunity ''o-1'' prospect 100 None (Some ''SO-1''),
             example_opportunity ''o-2'' prospect 100 None (Some ''SO-2'')]
            [example_invoice ''o-1'' ''INV-1'' 30 issued]))))) = [75]"
  using upsert_existing_keeps_owner [of "SessionLocal (example_database
            [example_opportunity ''o-1'' prospect 100 None (Some ''SO-1''),
             example_opportunity ''o-2'' prospect 100 None (Some ''SO-2'')]
            [example_invoice ''o-1'' ''INV-1'' 30 issued])" "''INV-1''" "(739100, 0)"
       "example_opportunity ''o-2'' prospect 100 None (Some ''SO-2'')" 75 739000 None paid "''EUR''"]
  by (simp add: example_defs)

section \<open>Sales date updates\<close>

lemma key_split:
  "resolves parse_uuid key u \<Longrightarrow>
   (case key of
      Uuid u \<Rightarrow> Inr u
    | Str text \<Rightarrow>
        (case parse_uuid text of
           None \<Rightarrow> Inl (ValueError ''Invalid opportunity id'')
         | Some u \<Rightarrow> Inr u)) = Inr u"
  by (cases key) (auto simp: resolves_def)

text \<open>
  C7. For an opportunity with no external order id (none, or an empty one, which the
  code treats alike), \<open>update_sales_date\<close> sets the expected close date to the new
  date, sends nothing to the external system, appends exactly one audit entry whose
  previous date is the prior expected close date, with \<open>synced_with_infor\<close> false and
  no remote reference, and returns the updated opportunity.
\<close>

theorem update_sales_date_no_external_link:
  assumes key: "resolves parse_uuid key u"
    and found: "OpportunityRepository_get s u = Some j"
    and unlinked: "\<not> truthy (infor_sales_order_id (opportunities (rows s) ! j))"
  shows "update_sales_date parse_uuid skyline_client now key new actor s =
           (Inr ((opportunities (rows s) ! j)\<lparr>expected_close_date := Some new, updated_at := now\<rparr>),
            s\<lparr>rows := (rows s)
                 \<lparr>opportunities := (opportunities (rows s))
                    [j := (opportunities (rows s) ! j)
                       \<lparr>expected_close_date := Some new, updated_at := now\<rparr>]\<rparr>,
               new_sales_date_updates := new_sales_date_updates s @
                 [\<lparr>SalesDateUpdate.opportunity_id = id' (opportunities (rows s) ! j),
                   previous_date = expected_close_date (opportunities (rows s) ! j),
                   new_date = new,
                   updated_by = actor,
                   synced_with_infor = False,
                   sync_reference = None\<rparr>]\<rparr>,
            [])"
  using found unlinked
  by (simp add: update_sales_date_def key_split [OF key] Let_def
      SalesDateUpdateRepository_record_def)

theorem update_sales_date_no_external_link_witness:
  "map_sum id expected_close_date (fst (update_sales_date (\<lambda>text. None)
      (example_client [] None (Inl (RequestException ''unreachable''))) (739100, 7)
      (Uuid ''o-1'') 739200 ''ana''
      (SessionLocal (example_database
         [example_opportunity ''o-1'' proposal 100 (Some 739150) None] [])))) =
     Inr (Some 739200) \<and>
   new_sales_date_updates (fst (snd (update_sales_date (\<lambda>text. None)
      (example_client [] None (Inl (RequestException ''unreachable''))) (739100, 7)
      (Uuid ''o-1'') 739200 ''ana''
      (SessionLocal (example_database
         [example_opportunity ''o-1'' proposal 100 (Some 739150) None] []))))) =
     [\<lparr>SalesDateUpdate.opportunity_id = ''o-1'', previous_date = Some 739150,
       new_date = 739200, updated_by = ''ana'', synced_with_infor = False,
       sync_reference = None\<rparr>] \<and>
   snd (snd (update_sales_date (\<lambda>text. None)
      (example_client [] None (Inl (RequestException ''unreachable''))) (739100, 7)
      (Uuid ''o-1'') 739200 ''ana''
      (SessionLocal (example_database
         [example_opportunity ''o-1'' proposal 100 (Some 739150) None] [])))) = []"
proof -
  have key: "resolves (\<lambda>text. None) (Uuid ''o-1'') ''o-1''"
    by (simp add: resolves_def)
  have found: "OpportunityRepository_get (SessionLocal (example_database
         [example_opportunity ''o-1'' proposal 100 (Some 739150) None] [])) ''o-1'' = Some 0"
    by (simp add: OpportunityRepository_get_def example_defs)
  have unlinked: "\<not> truthy (infor_sales_order_id (opportunities (rows (SessionLocal
      (example_database [example_opportunity ''o-1'' proposal 100 (Some 739150) None] []))) ! 0))"
    by (simp add: truthy_def example_defs)
  show ?thesis
    by (simp add: update_sales_date_no_external_link [OF key found unlinked])
      (simp add: example_defs)
qed

text \<open>
  C2. For an opportunity that carries an external order id, when the outcome of the
  client's \<open>update_sale_date\<close> has \<open>success\<close> false, \<open>update_sales_date\<close> fails with
  a \<open>RuntimeError\<close> whose text is the outcome's message (the fixed text
  \<open>Failed to update Infor Skyline\<close> stands in for a missing or empty message), and
  no audit entry is appended, pending or stored.
\<close>

theorem update_sales_date_rejected:
  assumes key: "resolves parse_uuid key u"
    and found: "OpportunityRepository_get s u = Some j"
    and linked: "infor_sales_order_id (opportunities (rows s) ! j) = Some order_id"
      "order_id \<noteq> []"
    and outcome: "update_sale_date skyline_client order_id new = Inr response"
    and rejected: "\<not> SaleDateUpdateResponse.success response"
  shows "fst (update_sales_date parse_uuid skyline_client now key new actor s) =
           Inl (RuntimeError
             (case message response of
                Some m \<Rightarrow> if m \<noteq> [] then m else ''Failed to update Infor Skyline''
              | None \<Rightarrow> ''Failed to update Infor Skyline'')) \<and>
         new_sales_date_updates
           (fst (snd (update_sales_date parse_uuid skyline_client now key new actor s))) =
           new_sales_date_updates s \<and>
         sales_date_updates
           (rows (fst (snd (update_sales_date parse_uuid skyline_client now key new actor s)))) =
           sales_date_updates (rows s)"
  using found linked outcome rejected
  by (simp add: update_sales_date_def key_split [OF key] Let_def truthy_def
      split: option.split)

theorem update_sales_date_rejected_witness:
  "fst (update_sales_date (\<lambda>text. None)
      (example_client [] None
         (Inr \<lparr>SaleDateUpdateResponse.success = False, reference = None,
               message = Some ''quota exceeded''\<rparr>)) (739100, 7)
      (Uuid ''o-1'') 739200 ''ana''
      (SessionLocal (example_database
         [example_opportunity ''o-1'' proposal 100 (Some 739150) (Some ''SO-1'')] []))) =
     Inl (RuntimeError ''quota exceeded'') \<and>
   new_sales_date_updates (fst (snd (update_sales_date (\<lambda>text. None)
      (example_client [] None
         (Inr \<lparr>SaleDateUpdateResponse.success = False, reference = None,
               message = Some ''quota exceeded''\<rparr>)) (739100, 7)
      (Uuid ''o-1'') 739200 ''ana''
      (SessionLocal (example_database
         [example_opportunity ''o-1'' proposal 100 (Some 739150) (Some ''SO-1'')] []))))) = []"
proof -
  have key: "resolves (\<lambda>text. None) (Uuid ''o-1'') ''o-1''"
    by (simp add: resolves_def)
  have found: "OpportunityRepository_get (SessionLocal (example_database
         [example_opportunity ''o-1'' proposal 100 (Some 739150) (Some ''SO-1'')] [])) ''o-1'' = Some 0"
    by (simp add: OpportunityRepository_get_def example_defs)
  have linked: "infor_sales_order_id (opportunities (rows (SessionLocal (example_database
         [example_opportunity ''o-1'' proposal 100 (Some 739150) (Some ''SO-1'')] []))) ! 0) =
       Some ''SO-1''" "''SO-1'' \<noteq> []"
    by (simp_all add: example_defs)
  have outcome: "update_sale_date (example_client [] None
         (Inr \<lparr>SaleDateUpdateResponse.success = False, reference = None,
               message = Some ''quota exceeded''\<rparr>)) ''SO-1'' 739200 =
       Inr \<lparr>SaleDateUpdateResponse.success = False, reference = None,
            message = Some ''quota exceeded''\<rparr>"
    by (simp add: example_defs)
  have rejected: "\<not> SaleDateUpdateResponse.success
       \<lparr>SaleDateUpdateResponse.success = False, reference = None,
        message = Some ''quota exceeded''\<rparr>"
    by simp
  from update_sales_date_rejected [OF key found linked outcome rejected, of "(739100, 7)" "''ana''"]
  show ?thesis by (simp add: example_defs)
qed

text \<open>
  C10. A call of \<open>update_sales_date\<close> whose new date equals the current expected
  close date of the opportunity is not a no-op: when the call succeeds, exactly one
  audit entry is appended, and its previous date equals its new date.
\<close>

theorem update_sales_date_same_date:
  assumes key: "resolves parse_uuid key u"
    and found: "OpportunityRepository_get s u = Some j"
    and same: "expected_close_date (opportunities (rows s) ! j) = Some new"
    and ok: "fst (update_sales_date parse_uuid skyline_client now key new actor s) = Inr opp"
  shows "\<exists>entry.
           new_sales_date_updates
             (fst (snd (update_sales_date parse_uuid skyline_client now key new actor s))) =
             new_sales_date_updates s @ [entry] \<and>
           previous_date entry = Some new \<and> new_date entry = new \<and>
           SalesDateUpdate.opportunity_id entry = id' (opportunities (rows s) ! j) \<and>
           updated_by entry = actor"
  using found same ok
  by (auto simp: update_sales_date_def key_split [OF key] Let_def
      SalesDateUpdateRepository_record_def split: if_splits sum.splits)

theorem update_sales_date_same_date_witness:
  "map_sum id expected_close_date (fst (update_sales_date (\<lambda>text. Some ''o-1'')
      (example_client [] None
         (Inr \<lparr>SaleDateUpdateResponse.success = True, reference = Some ''upd-9'',
               message = None\<rparr>)) (739100, 7)
      (Str ''O-1'') 739150 ''ana''
      (SessionLocal (example_database
         [example_opportunity ''o-1'' proposal 100 (Some 739150) (Some ''SO-1'')] [])))) =
     Inr (Some 739150) \<and>
   map (\<lambda>entry. (previous_date entry, new_date entry))
     (new_sales_date_updates (fst (snd (update_sales_date (\<lambda>text. Some ''o-1'')
      (example_client [] None
         (Inr \<lparr>SaleDateUpdateResponse.success = True, reference = Some ''upd-9'',
               message = None\<rparr>)) (739100, 7)
      (Str ''O-1'') 739150 ''ana''
      (SessionLocal (example_database
         [example_opportunity ''o-1'' proposal 100 (Some 739150) (Some ''SO-1'')] [])))))) =
     [(Some 739150, 739150)]"
proof -
  let ?run = "update_sales_date (\<lambda>text. Some ''o-1'')
      (example_client [] None
         (Inr \<lparr>SaleDateUpdateResponse.success = True, reference = Some ''upd-9'',
               message = None\<rparr>)) (739100, 7)
      (Str ''O-1'') 739150 ''ana''
      (SessionLocal (example_database
         [example_opportunity ''o-1'' proposal 100 (Some 739150) (Some ''SO-1'')] []))"
  have key: "resolves (\<lambda>text. Some ''o-1'') (Str ''O-1'') ''o-1''"
    by (simp add: resolves_def)
  have found: "OpportunityRepository_get (SessionLocal (example_database
         [example_opportunity ''o-1'' proposal 100 (Some 739150) (Some ''SO-1'')] [])) ''o-1'' = Some 0"
    by (simp add: OpportunityRepository_get_def example_defs)
  have same: "expected_close_date (opportunities (rows (SessionLocal (example_database
         [example_opportunity ''o-1'' proposal 100 (Some 739150) (Some ''SO-1'')] []))) ! 0) =
       Some 739150"
    by (simp add: example_defs)
  have ok: "fst ?run =
      Inr ((example_opportunity ''o-1'' proposal 100 (Some 739150) (Some ''SO-1''))
             \<lparr>updated_at := (739100, 7)\<rparr>)"
    by (simp add: update_sales_date_def OpportunityRepository_get_def truthy_def Let_def
        example_defs)
  from update_sales_date_same_date [OF key found same ok]
  obtain entry where entry: "new_sales_date_updates (fst (snd ?run)) = [] @ [entry]"
    "previous_date entry = Some 739150" "new_date entry = 739150"
    by (auto simp: example_defs)
  from ok entry show ?thesis by (simp add: example_defs)
qed

section \<open>The synchronisation loop\<close>

lemma get_by_infor_id_None:
  "get_by_infor_id s (opportunity_external_id p) = None \<longleftrightarrow>
   \<not> known_opportunity (opportunities (rows s)) p"
  by (simp add: get_by_infor_id_def known_opportunity_def find_index_None)

lemma get_by_infor_id_Some:
  "get_by_infor_id s (opportunity_external_id p) = Some j \<Longrightarrow>
   known_opportunity (opportunities (rows s)) p"
  using get_by_infor_id_None [of s p] by simp

lemma known_opportunity_found:
  "known_opportunity (opportunities (rows s)) p \<Longrightarrow>
   \<exists>j. get_by_infor_id s (opportunity_external_id p) = Some j"
  using get_by_infor_id_None [of s p]
  by (cases "get_by_infor_id s (opportunity_external_id p)") simp_all

lemma upsert_frame [simp]:
  "opportunities (rows (upsert_from_payload now opp ext amt issued_on due st cur s)) =
     opportunities (rows s)"
  "sales_date_updates (rows (upsert_from_payload now opp ext amt issued_on due st cur s)) =
     sales_date_updates (rows s)"
  "sync_logs (rows (upsert_from_payload now opp ext amt issued_on due st cur s)) =
     sync_logs (rows s)"
  "new_sales_date_updates (upsert_from_payload now opp ext amt issued_on due st cur s) =
     new_sales_date_updates s"
  "new_sync_logs (upsert_from_payload now opp ext amt issued_on due st cur s) =
     new_sync_logs s"
  by (simp_all add: upsert_from_payload_def split: option.split)

lemma get_by_infor_id_upsert [simp]:
  "get_by_infor_id (upsert_from_payload now opp ext amt issued_on due st cur s) x =
   get_by_infor_id s x"
  by (simp add: get_by_infor_id_def)

lemma sync_loop_frame:
  "sync_loop utcnow ps s n es k = (s', n', es', k') \<Longrightarrow>
   opportunities (rows s') = opportunities (rows s) \<and>
   sales_date_updates (rows s') = sales_date_updates (rows s) \<and>
   sync_logs (rows s') = sync_logs (rows s) \<and>
   new_sales_date_updates s' = new_sales_date_updates s \<and>
   new_sync_logs s' = new_sync_logs s"
proof (induction ps arbitrary: s n es k)
  case Nil
  then show ?case by simp
next
  case (Cons p ps)
  show ?case
  proof (cases "get_by_infor_id s (opportunity_external_id p)")
    case None
    with Cons.prems
    have "sync_loop utcnow ps s n (es @ [unknown_opportunity p]) k = (s', n', es', k')"
      by simp
    from Cons.IH [OF this] show ?thesis .
  next
    case (Some j)
    with Cons.prems
      Cons.IH [of "upsert_from_payload (utcnow k) (opportunities (rows s) ! j)
               (InvoicePayload.external_id p) (InvoicePayload.amount p)
               (InvoicePayload.issue_date p) (InvoicePayload.due_date p)
               (coerce_status (InvoicePayload.status p))
               (InvoicePayload.currency p) s" "n + 1" es "Suc k"]
    show ?thesis by simp
  qed
qed

lemma sync_loop_counts:
  "sync_loop utcnow ps s n es k = (s', n', es', k') \<Longrightarrow>
   n' = n + processed_count (opportunities (rows s)) ps \<and>
   es' = es @ batch_warnings (opportunities (rows s)) ps \<and>
   k' = k + processed_count (opportunities (rows s)) ps"
proof (induction ps arbitrary: s n es k)
  case Nil
  then show ?case by (simp add: processed_count_def batch_warnings_def)
next
  case (Cons p ps)
  show ?case
  proof (cases "get_by_infor_id s (opportunity_external_id p)")
    case None
    then have unk: "\<not> known_opportunity (opportunities (rows s)) p"
      by (simp add: get_by_infor_id_None)
    from None Cons.prems
    have "sync_loop utcnow ps s n (es @ [unknown_opportunity p]) k = (s', n', es', k')"
      by simp
    from Cons.IH [OF this] unk show ?thesis
      by (simp add: processed_count_def batch_warnings_def)
  next
    case (Some j)
    then have kn: "known_opportunity (opportunities (rows s)) p"
      by (rule get_by_infor_id_Some)
    from Some Cons.prems
      Cons.IH [of "upsert_from_payload (utcnow k) (opportunities (rows s) ! j)
               (InvoicePayload.external_id p) (InvoicePayload.amount p)
               (InvoicePayload.issue_date p) (InvoicePayload.due_date p)
               (coerce_status (InvoicePayload.status p))
               (InvoicePayload.currency p) s" "n + 1" es "Suc k"] kn
    show ?thesis by (simp add: processed_count_def batch_warnings_def)
  qed
qed

lemma sync_loop_append:
  "sync_loop utcnow (xs @ ys) s n es k =
     (case sync_loop utcnow xs s n es k of
        (s1, n1, es1, k1) \<Rightarrow> sync_loop utcnow ys s1 n1 es1 k1)"
  by (induction xs arbitrary: s n es k) (simp_all split: option.split)

text \<open>The session and the clock readings of the loop do not depend on the warnings.\<close>

lemma sync_loop_session:
  "fst (sync_loop utcnow ps s n es k) = fst (sync_loop utcnow ps s n' es' k)"
  by (induction ps arbitrary: s n es k n' es') (simp_all split: option.split)

lemma sync_loop_skip_session:
  assumes "\<not> known_opportunity (opportunities (rows s)) p"
  shows "fst (sync_loop utcnow (xs @ p # ys) s n es k) =
         fst (sync_loop utcnow (xs @ ys) s n es k)"
proof -
  obtain s1 n1 es1 k1 where loop: "sync_loop utcnow xs s n es k = (s1, n1, es1, k1)"
    by (cases "sync_loop utcnow xs s n es k") auto
  from sync_loop_frame [OF loop] assms
  have "get_by_infor_id s1 (opportunity_external_id p) = None"
    by (simp add: get_by_infor_id_None)
  with loop show ?thesis
    by (simp add: sync_loop_append sync_loop_session [of utcnow ys s1 n1 "es1 @ [unknown_opportunity p]" k1 n1 es1])
qed

lemma processed_count_append [simp]:
  "processed_count opps (xs @ ys) = processed_count opps xs + processed_count opps ys"
  by (simp add: processed_count_def)

lemma batch_warnings_append [simp]:
  "batch_warnings opps (xs @ ys) = batch_warnings opps xs @ batch_warnings opps ys"
  by (simp add: batch_warnings_def)

section \<open>One synchronisation\<close>

lemma synchronise_invoices_result:
  assumes fetch: "fetch_invoices skyline_client (since_of utcnow since) = (payloads, failure)"
  shows "synchronise_invoices skyline_client utcnow since s =
     (case failure of
        None \<Rightarrow>
          (Inr \<lparr>processed = processed_count (opportunities (rows s)) payloads,
                warnings = batch_warnings (opportunities (rows s)) payloads\<rparr>,
           SyncLogRepository_create ''invoice''
             (batch_warnings (opportunities (rows s)) payloads = [])
             (Some (''Processed '' @
                    str_nat (processed_count (opportunities (rows s)) payloads) @
                    '' invoices'' @
                    (if batch_warnings (opportunities (rows s)) payloads \<noteq> []
                     then ''; warnings: '' @
                       join '' | '' (batch_warnings (opportunities (rows s)) payloads)
                     else [])))
             (fst (sync_loop utcnow payloads s 0 [] (reads_before_loop since))))
      | Some exc \<Rightarrow>
          (Inl exc,
           SyncLogRepository_create ''invoice'' False
             (Some (join ''; ''
                (batch_warnings (opportunities (rows s)) payloads @ [str_exn exc])))
             (fst (sync_loop utcnow payloads s 0 [] (reads_before_loop since)))))"
proof -
  obtain s1 n es k
    where loop: "sync_loop utcnow payloads s 0 [] (reads_before_loop since) = (s1, n, es, k)"
    by (cases "sync_loop utcnow payloads s 0 [] (reads_before_loop since)") auto
  from sync_loop_counts [OF loop]
  have n: "n = processed_count (opportunities (rows s)) payloads"
    and es: "es = batch_warnings (opportunities (rows s)) payloads"
    by simp_all
  show ?thesis
  proof (cases since)
    case None
    with fetch loop n es show ?thesis
      by (simp add: synchronise_invoices_def since_of_def reads_before_loop_def
          split: option.split)
  next
    case (Some d)
    with fetch loop n es show ?thesis
      by (simp add: synchronise_invoices_def since_of_def reads_before_loop_def
          split: option.split)
  qed
qed

lemma sync_loop_logs:
  "new_sync_logs (fst (sync_loop utcnow ps s n es k)) = new_sync_logs s \<and>
   sync_logs (rows (fst (sync_loop utcnow ps s n es k))) = sync_logs (rows s)"
  using sync_loop_frame [of utcnow ps s n es k]
  by (cases "sync_loop utcnow ps s n es k") auto

text \<open>
  C3. Every invocation of \<open>synchronise_invoices\<close> writes exactly one log entry. When
  the payloads are processed to the end, its success flag says that no warning was
  accumulated and its details give the processed count followed by the warnings, if
  any, joined together. When the client raises in the middle of the batch, the one
  entry has success false, its details hold the accumulated warnings and the failure,
  and the failure is raised to the caller.
\<close>

theorem synchronise_invoices_writes_one_log:
  assumes fetch: "fetch_invoices skyline_client (since_of utcnow since) = (payloads, failure)"
  shows "new_sync_logs (snd (synchronise_invoices skyline_client utcnow since s)) =
           new_sync_logs s @
           [case failure of
              None \<Rightarrow>
                \<lparr>sync_type = ''invoice'',
                 SyncLog.success = (batch_warnings (opportunities (rows s)) payloads = []),
                 details = Some (''Processed '' @
                    str_nat (processed_count (opportunities (rows s)) payloads) @
                    '' invoices'' @
                    (if batch_warnings (opportunities (rows s)) payloads \<noteq> []
                     then ''; warnings: '' @
                       join '' | '' (batch_warnings (opportunities (rows s)) payloads)
                     else []))\<rparr>
            | Some exc \<Rightarrow>
                \<lparr>sync_type = ''invoice'', SyncLog.success = False,
                 details = Some (join ''; ''
                   (batch_warnings (opportunities (rows s)) payloads @ [str_exn exc]))\<rparr>] \<and>
         sync_logs (rows (snd (synchronise_invoices skyline_client utcnow since s))) =
           sync_logs (rows s) \<and>
         fst (synchronise_invoices skyline_client utcnow since s) =
           (case failure of
              None \<Rightarrow>
                Inr \<lparr>processed = processed_count (opportunities (rows s)) payloads,
                     warnings = batch_warnings (opportunities (rows s)) payloads\<rparr>
            | Some exc \<Rightarrow> Inl exc)"
  by (simp add: synchronise_invoices_result [OF fetch] SyncLogRepository_create_def
      sync_loop_logs split: option.split)

theorem synchronise_invoices_writes_one_log_witness:
  "new_sync_logs (snd (synchronise_invoices
      (example_client [] (Some (RequestException ''connection reset'')) (Inl (ValueError [])))
      example_clock None
      (SessionLocal (example_database
         [example_opportunity ''o-1'' prospect 100 None (Some ''SO-1'')] [])))) =
     [\<lparr>sync_type = ''invoice'', SyncLog.success = False,
       details = Some ''connection reset''\<rparr>] \<and>
   fst (synchronise_invoices
      (example_client [] (Some (RequestException ''connection reset'')) (Inl (ValueError [])))
      example_clock None
      (SessionLocal (example_database
         [example_opportunity ''o-1'' prospect 100 None (Some ''SO-1'')] []))) =
     Inl (RequestException ''connection reset'') \<and>
   new_sync_logs (snd (synchronise_invoices
      (example_client
         [example_payload ''INV-1'' ''SO-1'' 75 ''paid'',
          example_payload ''INV-9'' ''SO-404'' 20 ''issued'']
         None (Inl (ValueError [])))
      example_clock (Some 739000)
      (SessionLocal (example_database
         [example_opportunity ''o-1'' prospect 100 None (Some ''SO-1'')] [])))) =
     [\<lparr>sync_type = ''invoice'', SyncLog.success = False,
       details =
         Some ''Processed 1 invoices; warnings: Unknown opportunity for invoice INV-9''\<rparr>]"
proof -
  have fetch1: "fetch_invoices
      (example_client [] (Some (RequestException ''connection reset'')) (Inl (ValueError [])))
      (since_of example_clock None) = ([], Some (RequestException ''connection reset''))"
    by (simp add: example_defs)
  have fetch2: "fetch_invoices
      (example_client
         [example_payload ''INV-1'' ''SO-1'' 75 ''paid'',
          example_payload ''INV-9'' ''SO-404'' 20 ''issued'']
         None (Inl (ValueError [])))
      (since_of example_clock (Some 739000)) =
      ([example_payload ''INV-1'' ''SO-1'' 75 ''paid'',
        example_payload ''INV-9'' ''SO-404'' 20 ''issued''], None)"
    by (simp add: example_defs)
  from synchronise_invoices_writes_one_log [OF fetch1]
    synchronise_invoices_writes_one_log [OF fetch2]
  show ?thesis
    by (simp add: example_defs batch_warnings_def processed_count_def
        known_opportunity_def unknown_opportunity_def)
qed

text \<open>
  C4. A payload whose external order id matches no stored opportunity yields exactly
  one warning, \<open>Unknown opportunity for invoice\<close> followed by its external invoice
  id, at its place among the warnings of the batch; it is not counted as processed;
  the synchronisation goes on with the payloads after it; and the session is left
  as by the batch without that payload, so no invoice is created for it.
\<close>

theorem unknown_opportunity_is_skipped:
  assumes fetch: "fetch_invoices skyline_client (since_of utcnow since) =
      (before @ payload # after, None)"
    and unknown: "\<not> known_opportunity (opportunities (rows s)) payload"
  shows "fst (synchronise_invoices skyline_client utcnow since s) =
           Inr \<lparr>processed = processed_count (opportunities (rows s)) before +
                             processed_count (opportunities (rows s)) after,
                warnings = batch_warnings (opportunities (rows s)) before @
                  [''Unknown opportunity for invoice '' @ InvoicePayload.external_id payload] @
                  batch_warnings (opportunities (rows s)) after\<rparr> \<and>
         rows (snd (synchronise_invoices skyline_client utcnow since s)) =
           rows (fst (sync_loop utcnow (before @ after) s 0 [] (reads_before_loop since))) \<and>
         new_invoices (snd (synchronise_invoices skyline_client utcnow since s)) =
           new_invoices (fst (sync_loop utcnow (before @ after) s 0 [] (reads_before_loop since))) \<and>
         sync_loop utcnow (payload # after) s n es k =
           sync_loop utcnow after s n
             (es @ [''Unknown opportunity for invoice '' @ InvoicePayload.external_id payload]) k"
proof -
  from unknown have none: "get_by_infor_id s (opportunity_external_id payload) = None"
    by (simp add: get_by_infor_id_None)
  from unknown
  have count: "processed_count (opportunities (rows s)) (before @ payload # after) =
      processed_count (opportunities (rows s)) before +
      processed_count (opportunities (rows s)) after"
    by (simp add: processed_count_def)
  from unknown
  have warn: "batch_warnings (opportunities (rows s)) (before @ payload # after) =
      batch_warnings (opportunities (rows s)) before @
      [''Unknown opportunity for invoice '' @ InvoicePayload.external_id payload] @
      batch_warnings (opportunities (rows s)) after"
    by (simp add: batch_warnings_def unknown_opportunity_def)
  have session: "fst (sync_loop utcnow (before @ payload # after) s 0 [] (reads_before_loop since)) =
      fst (sync_loop utcnow (before @ after) s 0 [] (reads_before_loop since))"
    by (rule sync_loop_skip_session [OF unknown])
  have step: "sync_loop utcnow (payload # after) s n es k =
      sync_loop utcnow after s n
        (es @ [''Unknown opportunity for invoice '' @ InvoicePayload.external_id payload]) k"
    using none by (simp add: unknown_opportunity_def)
  from count warn session step show ?thesis
    by (simp add: synchronise_invoices_result [OF fetch] SyncLogRepository_create_def)
qed

theorem unknown_opportunity_is_skipped_witness:
  "fst (synchronise_invoices
      (example_client
         [example_payload ''INV-1'' ''SO-1'' 75 ''paid'',
          example_payload ''INV-9'' ''SO-404'' 20 ''issued'',
          example_payload ''INV-2'' ''SO-1'' 40 ''draft'']
         None (Inl (ValueError [])))
      example_clock (Some 739000)
      (SessionLocal (example_database
         [example_opportunity ''o-1'' prospect 100 None (Some ''SO-1'')] []))) =
     Inr \<lparr>processed = 2, warnings = [''Unknown opportunity for invoice INV-9'']\<rparr> \<and>
   map Invoice.external_id (new_invoices (snd (synchronise_invoices
      (example_client
         [example_payload ''INV-1'' ''SO-1'' 75 ''paid'',
          example_payload ''INV-9'' ''SO-404'' 20 ''issued'',
          example_payload ''INV-2'' ''SO-1'' 40 ''draft'']
         None (Inl (ValueError [])))
      example_clock (Some 739000)
      (SessionLocal (example_database
         [example_opportunity ''o-1'' prospect 100 None (Some ''SO-1'')] []))))) =
     [Some ''INV-1'', Some ''INV-2'']"
proof -
  have fetch: "fetch_invoices
      (example_client
         [example_payload ''INV-1'' ''SO-1'' 75 ''paid'',
          example_payload ''INV-9'' ''SO-404'' 20 ''issued'',
          example_payload ''INV-2'' ''SO-1'' 40 ''draft'']
         None (Inl (ValueError [])))
      (since_of example_clock (Some 739000)) =
      ([example_payload ''INV-1'' ''SO-1'' 75 ''paid''] @
        example_payload ''INV-9'' ''SO-404'' 20 ''issued'' #
        [example_payload ''INV-2'' ''SO-1'' 40 ''draft''], None)"
    by (simp add: example_defs)
  have unknown: "\<not> known_opportunity (opportunities (rows (SessionLocal (example_database
         [example_opportunity ''o-1'' prospect 100 None (Some ''SO-1'')] []))))
       (example_payload ''INV-9'' ''SO-404'' 20 ''issued'')"
    by (simp add: known_opportunity_def example_defs)
  from unknown_opportunity_is_skipped [OF fetch unknown]
  show ?thesis
    by (simp add: example_defs batch_warnings_def processed_count_def
        known_opportunity_def reads_before_loop_def get_by_infor_id_def
        upsert_from_payload_def select_invoice_def)
qed

section \<open>Unparseable status texts\<close>

lemma coerce_status_unparseable:
  assumes "\<forall>st. InvoiceStatus_value st \<noteq> v \<and> InvoiceStatus_value st \<noteq> lower v"
  shows "coerce_status v = issued"
proof -
  from assms obtain e where "InvoiceStatus_of v = Inl e"
    using InvoiceStatus_of_Inl [of v] by blast
  moreover from assms obtain e' where "InvoiceStatus_of (lower v) = Inl e'"
    using InvoiceStatus_of_Inl [of "lower v"] by blast
  ultimately show ?thesis by (simp add: coerce_status_def)
qed

text \<open>
  C5, as the specification states it, fails: a payload whose status text matches no
  canonical status, even in lowercase, is processed and no warning is accumulated for
  it. Here the batch is that one payload, for a known opportunity: the result has no
  warning, the log entry reports success with the count alone, and the invoice is
  created with status issued.
\<close>

theorem unparseable_status_warning_counterexample:
  "(\<forall>st. InvoiceStatus_value st \<noteq> ''bogus'') \<and>
   (\<forall>st. InvoiceStatus_value st \<noteq> lower ''bogus'') \<and>
   fst (synchronise_invoices
      (example_client [example_payload ''INV-1'' ''SO-1'' 75 ''bogus''] None
         (Inl (ValueError [])))
      example_clock (Some 739000)
      (SessionLocal (example_database
         [example_opportunity ''o-1'' prospect 100 None (Some ''SO-1'')] []))) =
     Inr \<lparr>processed = 1, warnings = []\<rparr> \<and>
   new_sync_logs (snd (synchronise_invoices
      (example_client [example_payload ''INV-1'' ''SO-1'' 75 ''bogus''] None
         (Inl (ValueError [])))
      example_clock (Some 739000)
      (SessionLocal (example_database
         [example_opportunity ''o-1'' prospect 100 None (Some ''SO-1'')] [])))) =
     [\<lparr>sync_type = ''invoice'', SyncLog.success = True,
       details = Some ''Processed 1 invoices''\<rparr>] \<and>
   map Invoice.status (new_invoices (snd (synchronise_invoices
      (example_client [example_payload ''INV-1'' ''SO-1'' 75 ''bogus''] None
         (Inl (ValueError [])))
      example_clock (Some 739000)
      (SessionLocal (example_database
         [example_opportunity ''o-1'' prospect 100 None (Some ''SO-1'')] []))))) = [issued]"
proof -
  have no1: "\<forall>st. InvoiceStatus_value st \<noteq> ''bogus''"
  proof
    fix st show "InvoiceStatus_value st \<noteq> ''bogus''" by (cases st) simp_all
  qed
  have no2: "\<forall>st. InvoiceStatus_value st \<noteq> lower ''bogus''"
  proof
    fix st show "InvoiceStatus_value st \<noteq> lower ''bogus''"
      by (cases st) (simp_all add: lower_def lower_char_def)
  qed
  have run: "synchronise_invoices
      (example_client [example_payload ''INV-1'' ''SO-1'' 75 ''bogus''] None
         (Inl (ValueError [])))
      example_clock (Some 739000)
      (SessionLocal (example_database
         [example_opportunity ''o-1'' prospect 100 None (Some ''SO-1'')] [])) =
    (Inr \<lparr>processed = 1, warnings = []\<rparr>,
     \<lparr>rows = example_database
         [example_opportunity ''o-1'' prospect 100 None (Some ''SO-1'')] [],
      new_invoices =
        [\<lparr>Invoice.opportunity_id = ''o-1'', Invoice.external_id = Some ''INV-1'',
          Invoice.amount = 75, Invoice.issue_date = 739000,
          Invoice.due_date = Some 739030, Invoice.status = issued,
          Invoice.currency = ''EUR'', last_sync_at = Some (739100, 0)\<rparr>],
      new_sales_date_updates = [],
      new_sync_logs =
        [\<lparr>sync_type = ''invoice'', SyncLog.success = True,
          details = Some ''Processed 1 invoices''\<rparr>]\<rparr>)"
    by (simp add: synchronise_invoices_def get_by_infor_id_def upsert_from_payload_def
        select_invoice_def SyncLogRepository_create_def coerce_status_def
        InvoiceStatus_of_def lower_def lower_char_def example_defs)
  from no1 no2 show ?thesis by (simp add: run)
qed

text \<open>
  C5, amended. A payload whose status text matches no canonical status, even in
  lowercase, and whose opportunity is known, is processed with status issued and
  counted; no warning is accumulated for it: the warnings of the result and the
  details of the log entry are those of the unknown opportunities of the batch alone.
\<close>

theorem unparseable_status_adds_no_warning:
  assumes fetch: "fetch_invoices skyline_client (since_of utcnow since) =
      (before @ payload # after, None)"
    and known: "known_opportunity (opportunities (rows s)) payload"
    and unparseable: "\<forall>st. InvoiceStatus_value st \<noteq> InvoicePayload.status payload \<and>
      InvoiceStatus_value st \<noteq> lower (InvoicePayload.status payload)"
  shows "fst (synchronise_invoices skyline_client utcnow since s) =
           Inr \<lparr>processed = processed_count (opportunities (rows s)) before + 1 +
                             processed_count (opportunities (rows s)) after,
                warnings = batch_warnings (opportunities (rows s)) before @
                  batch_warnings (opportunities (rows s)) after\<rparr> \<and>
         new_sync_logs (snd (synchronise_invoices skyline_client utcnow since s)) =
           new_sync_logs s @
           [\<lparr>sync_type = ''invoice'',
             SyncLog.success = (batch_warnings (opportunities (rows s)) before @
                batch_warnings (opportunities (rows s)) after = []),
             details = Some (''Processed '' @
                str_nat (processed_count (opportunities (rows s)) before + 1 +
                         processed_count (opportunities (rows s)) after) @
                '' invoices'' @
                (if batch_warnings (opportunities (rows s)) before @
                    batch_warnings (opportunities (rows s)) after \<noteq> []
                 then ''; warnings: '' @
                   join '' | '' (batch_warnings (opportunities (rows s)) before @
                                batch_warnings (opportunities (rows s)) after)
                 else []))\<rparr>] \<and>
         (\<exists>j. get_by_infor_id s (opportunity_external_id payload) = Some j \<and>
              sync_loop utcnow (payload # after) s n es k =
                sync_loop utcnow after
                  (upsert_from_payload (utcnow k) (opportunities (rows s) ! j)
                     (InvoicePayload.external_id payload) (InvoicePayload.amount payload)
                     (InvoicePayload.issue_date payload) (InvoicePayload.due_date payload)
                     issued (InvoicePayload.currency payload) s)
                  (n + 1) es (Suc k))"
proof -
  from known
  have count: "processed_count (opportunities (rows s)) (before @ payload # after) =
      processed_count (opportunities (rows s)) before + 1 +
      processed_count (opportunities (rows s)) after"
    by (simp add: processed_count_def)
  from known
  have warn: "batch_warnings (opportunities (rows s)) (before @ payload # after) =
      batch_warnings (opportunities (rows s)) before @
      batch_warnings (opportunities (rows s)) after"
    by (simp add: batch_warnings_def)
  from known obtain j where j: "get_by_infor_id s (opportunity_external_id payload) = Some j"
    using known_opportunity_found by blast
  have st: "coerce_status (InvoicePayload.status payload) = issued"
    by (rule coerce_status_unparseable [OF unparseable])
  have step: "sync_loop utcnow (payload # after) s n es k =
      sync_loop utcnow after
        (upsert_from_payload (utcnow k) (opportunities (rows s) ! j)
           (InvoicePayload.external_id payload) (InvoicePayload.amount payload)
           (InvoicePayload.issue_date payload) (InvoicePayload.due_date payload)
           issued (InvoicePayload.currency payload) s)
        (n + 1) es (Suc k)"
    using j st by simp
  have result: "fst (synchronise_invoices skyline_client utcnow since s) =
           Inr \<lparr>processed = processed_count (opportunities (rows s)) before + 1 +
                             processed_count (opportunities (rows s)) after,
                warnings = batch_warnings (opportunities (rows s)) before @
                  batch_warnings (opportunities (rows s)) after\<rparr>"
    using count warn by (simp add: synchronise_invoices_result [OF fetch])
  have log: "new_sync_logs (snd (synchronise_invoices skyline_client utcnow since s)) =
           new_sync_logs s @
           [\<lparr>sync_type = ''invoice'',
             SyncLog.success = (batch_warnings (opportunities (rows s)) before @
                batch_warnings (opportunities (rows s)) after = []),
             details = Some (''Processed '' @
                str_nat (processed_count (opportunities (rows s)) before + 1 +
                         processed_count (opportunities (rows s)) after) @
                '' invoices'' @
                (if batch_warnings (opportunities (rows s)) before @
                    batch_warnings (opportunities (rows s)) after \<noteq> []
                 then ''; warnings: '' @
                   join '' | '' (batch_warnings (opportunities (rows s)) before @
                                batch_warnings (opportunities (rows s)) after)
                 else []))\<rparr>]"
    using count warn
    by (simp add: synchronise_invoices_result [OF fetch] SyncLogRepository_create_def
        sync_loop_logs del: str_nat.simps)
  from result log j step show ?thesis by blast
qed

theorem unparseable_status_adds_no_warning_witness:
  "fst (synchronise_invoices
      (example_client
         [example_payload ''INV-9'' ''SO-404'' 20 ''issued'',
          example_payload ''INV-1'' ''SO-1'' 75 ''n/a'',
          example_payload ''INV-2'' ''SO-1'' 40 ''Paid'']
         None (Inl (ValueError [])))
      example_clock (Some 739000)
      (SessionLocal (example_database
         [example_opportunity ''o-1'' prospect 100 None (Some ''SO-1'')] []))) =
     Inr \<lparr>processed = 2, warnings = [''Unknown opportunity for invoice INV-9'']\<rparr> \<and>
   map Invoice.status (new_invoices (snd (synchronise_invoices
      (example_client
         [example_payload ''INV-9'' ''SO-404'' 20 ''issued'',
          example_payload ''INV-1'' ''SO-1'' 75 ''n/a'',
          example_payload ''INV-2'' ''SO-1'' 40 ''Paid'']
         None (Inl (ValueError [])))
      example_clock (Some 739000)
      (SessionLocal (example_database
         [example_opportunity ''o-1'' prospect 100 None (Some ''SO-1'')] []))))) =
     [issued, paid]"
proof -
  have fetch: "fetch_invoices
      (example_client
         [example_payload ''INV-9'' ''SO-404'' 20 ''issued'',
          example_payload ''INV-1'' ''SO-1'' 75 ''n/a'',
          example_payload ''INV-2'' ''SO-1'' 40 ''Paid'']
         None (Inl (ValueError [])))
      (since_of example_clock (Some 739000)) =
      ([example_payload ''INV-9'' ''SO-404'' 20 ''issued''] @
        example_payload ''INV-1'' ''SO-1'' 75 ''n/a'' #
        [example_payload ''INV-2'' ''SO-1'' 40 ''Paid''], None)"
    by (simp add: example_defs)
  have known: "known_opportunity (opportunities (rows (SessionLocal (example_database
         [example_opportunity ''o-1'' prospect 100 None (Some ''SO-1'')] []))))
       (example_payload ''INV-1'' ''SO-1'' 75 ''n/a'')"
    by (simp add: known_opportunity_def example_defs)
  have unparseable: "\<forall>st. InvoiceStatus_value st \<noteq>
        InvoicePayload.status (example_payload ''INV-1'' ''SO-1'' 75 ''n/a'') \<and>
      InvoiceStatus_value st \<noteq>
        lower (InvoicePayload.status (example_payload ''INV-1'' ''SO-1'' 75 ''n/a''))"
  proof
    fix st
    show "InvoiceStatus_value st \<noteq>
        InvoicePayload.status (example_payload ''INV-1'' ''SO-1'' 75 ''n/a'') \<and>
      InvoiceStatus_value st \<noteq>
        lower (InvoicePayload.status (example_payload ''INV-1'' ''SO-1'' 75 ''n/a''))"
      by (cases st) (simp_all add: example_defs lower_def lower_char_def)
  qed
  have pending: "map Invoice.status (new_invoices (snd (synchronise_invoices
      (example_client
         [example_payload ''INV-9'' ''SO-404'' 20 ''issued'',
          example_payload ''INV-1'' ''SO-1'' 75 ''n/a'',
          example_payload ''INV-2'' ''SO-1'' 40 ''Paid'']
         None (Inl (ValueError [])))
      example_clock (Some 739000)
      (SessionLocal (example_database
         [example_opportunity ''o-1'' prospect 100 None (Some ''SO-1'')] []))))) =
     [issued, paid]"
    by (simp add: synchronise_invoices_def get_by_infor_id_def upsert_from_payload_def
        select_invoice_def SyncLogRepository_create_def coerce_status_def
        InvoiceStatus_of_def lower_def lower_char_def example_defs)
  from unparseable_status_adds_no_warning [OF fetch known unparseable] pending
  show ?thesis
    by (simp add: example_defs batch_warnings_def processed_count_def
        known_opportunity_def unknown_opportunity_def)
qed

section \<open>Uniqueness of external invoice ids\<close>



lemma stored_with_append [simp]:
  "stored_with ext (xs @ ys) = stored_with ext xs @ stored_with ext ys"
  by (simp add: stored_with_def)




section \<open>The effect of an upsert on the invoices of each external id\<close>





section \<open>The invoices after the loop\<close>






section \<open>One run of the scheduled job\<close>



section \<open>Two runs with the same payloads\<close>




section \<open>A batch that repeats an external id that is not stored yet\<close>

text \<open>
  What the second hypothesis of the amended C1 leaves out: the lookup of
  \<open>upsert_from_payload\<close> reads the stored rows only, so the second payload of an id
  that is not stored yet becomes a second pending invoice, the flush of the commit
  violates the unique column, and the scope rolls back.
\<close>

lemma run_invoice_sync_repeated_id:
  "run_invoice_sync
     (example_client
        [example_payload ''INV-7'' ''SO-1'' 10 ''issued'',
         example_payload ''INV-7'' ''SO-1'' 20 ''paid'']
        None (Inl (ValueError [])))
     example_clock
     (example_database [example_opportunity ''o-1'' prospect 100 None (Some ''SO-1'')] []) =
   (Inl (IntegrityError ''UNIQUE constraint failed: invoices.external_id''),
    example_database [example_opportunity ''o-1'' prospect 100 None (Some ''SO-1'')] [])"
  by (simp add: run_invoice_sync_def session_scope_def synchronise_invoices_def
      get_by_infor_id_def upsert_from_payload_def select_invoice_def
      SyncLogRepository_create_def commit_def flush_def unique_external_ids_def
      Let_def example_defs)

end
